theory Spec2Isabelle
  imports Complex_Main "HOL-Library.Char_ord" "HOL-Library.List_Lexorder" "HOL-Library.Log_Nat" "HOL-Library.Multiset"
begin

chapter \<open>E-Rate data analyzer: vendor taxonomy, cost extraction, aggregation and reports\<close>

text \<open>
  A shallow embedding of \<^verbatim>\<open>usac_school_query.py\<close> (class \<^verbatim>\<open>SchoolERateAnalyzer\<close>, the
  organization-history workflow) and \<^verbatim>\<open>usac_year_query.py\<close> (class
  \<^verbatim>\<open>ERateDataProcessor\<close>, the state/year workflow).

  Conventions of the model.
  \<^item> Text is ASCII: a Python \<^verbatim>\<open>str\<close> is a \<open>string\<close>, one \<open>char\<close> per code point, and
    \<^verbatim>\<open>len\<close> is \<open>length\<close>. \<^verbatim>\<open>lower\<close>, \<^verbatim>\<open>upper\<close>, \<^verbatim>\<open>title\<close> and \<^verbatim>\<open>strip\<close> act on
    the ASCII letters and the ASCII white space as Python does.
  \<^item> A Python dictionary is an association list in insertion order (the order Python
    iterates it in); a key occurs once.
  \<^item> A finite Python float is the rational number it denotes. Float addition is the exact
    sum rounded to 53 significant bits, ties to even (\<open>fadd\<close>); infinities, NaN,
    subnormals and overflow of float arithmetic are outside the model.
  \<^item> An exception is a value: a function that can raise returns \<open>py_error + 'a\<close>.
  \<^item> \<^verbatim>\<open>print\<close> is modelled by the list of rows printed, each row a constructor holding
    the formatted fields; ANSI colour codes are left out.
\<close>

section \<open>Definitions\<close>

subsection \<open>Python string operations on ASCII text\<close>

text \<open>
  \<^verbatim>\<open>str.lower\<close>, \<^verbatim>\<open>str.upper\<close>, \<^verbatim>\<open>str.strip\<close> (white space per \<^verbatim>\<open>str.isspace\<close>: tab, line
  feed, vertical tab, form feed, carriage return, the separators 28 to 31 and the space)
  and \<^verbatim>\<open>str.title\<close> (the first letter of every run of letters in upper case, the others
  in lower case).
\<close>

definition is_upper :: "char \<Rightarrow> bool" where
  "is_upper c = (65 \<le> (of_char c :: int) \<and> (of_char c :: int) \<le> 90)"

definition is_lower :: "char \<Rightarrow> bool" where
  "is_lower c = (97 \<le> (of_char c :: int) \<and> (of_char c :: int) \<le> 122)"

definition lower_char :: "char \<Rightarrow> char" where
  "lower_char c = (if is_upper c then char_of ((of_char c :: int) + 32) else c)"

definition upper_char :: "char \<Rightarrow> char" where
  "upper_char c = (if is_lower c then char_of ((of_char c :: int) - 32) else c)"

definition py_lower :: "string \<Rightarrow> string" where
  "py_lower s = map lower_char s"

definition py_upper :: "string \<Rightarrow> string" where
  "py_upper s = map upper_char s"

definition is_space :: "char \<Rightarrow> bool" where
  "is_space c = ((of_char c :: int) \<in> {9, 10, 11, 12, 13, 28, 29, 30, 31, 32})"

definition py_strip :: "string \<Rightarrow> string" where
  "py_strip s = rev (dropWhile is_space (rev (dropWhile is_space s)))"

fun title_from :: "bool \<Rightarrow> string \<Rightarrow> string" where
  "title_from prev [] = []"
| "title_from prev (c # cs) =
     (if is_lower c then (if prev then c else upper_char c) # title_from True cs
      else if is_upper c then (if prev then lower_char c else c) # title_from True cs
      else c # title_from False cs)"

definition py_title :: "string \<Rightarrow> string" where
  "py_title s = title_from False s"

subsection \<open>Vendor taxonomy\<close>

text \<open>
  \<^verbatim>\<open>self.vendor_mappings\<close> of the two classes, in dictionary order. The tables differ: the
  state/year table lists \<^verbatim>\<open>juniper\<close> and \<^verbatim>\<open>juniper networks\<close> under \<^verbatim>\<open>hp\<close>.
  \<^verbatim>\<open>target_vendors\<close> is the flat collection of the lower-cased variants;
  \<^verbatim>\<open>get_standardized_vendor\<close> returns the title-cased key of the first entry whose
  lower-cased variants contain the lower-cased, stripped name, and the name itself when
  there is none (\<open>first_variant_match\<close> is its \<^verbatim>\<open>for\<close> loop).
\<close>

type_synonym vendor_table = "(string \<times> string list) list"



definition target_vendors :: "vendor_table \<Rightarrow> string list" where
  "target_vendors vm = concat (map (\<lambda>(standard_name, vendor_list). map py_lower vendor_list) vm)"

definition is_target_vendor :: "vendor_table \<Rightarrow> string \<Rightarrow> bool" where
  "is_target_vendor vm manufacturer_name =
     (if manufacturer_name = [] then False
      else py_strip (py_lower manufacturer_name) \<in> set (target_vendors vm))"

fun first_variant_match :: "vendor_table \<Rightarrow> string \<Rightarrow> string option" where
  "first_variant_match [] name_lower = None"
| "first_variant_match ((standard_name, variants) # rest) name_lower =
     (if name_lower \<in> set (map py_lower variants) then Some (py_title standard_name)
      else first_variant_match rest name_lower)"

definition get_standardized_vendor :: "vendor_table \<Rightarrow> string \<Rightarrow> string" where
  "get_standardized_vendor vm manufacturer_name =
     (if manufacturer_name = [] then []
      else (case first_variant_match vm (py_strip (py_lower manufacturer_name)) of
              Some standard \<Rightarrow> standard
            | None \<Rightarrow> manufacturer_name))"

subsection \<open>Python errors, JSON values and floats\<close>

datatype py_error = ValueError | TypeError | OverflowError | ZeroDivisionError

text \<open>
  What \<^verbatim>\<open>response.json()\<close> can put under a key: \<^verbatim>\<open>None\<close>, a \<^verbatim>\<open>bool\<close>, an \<^verbatim>\<open>int\<close> (unbounded),
  a \<^verbatim>\<open>float\<close>, a \<^verbatim>\<open>str\<close>, a \<^verbatim>\<open>list\<close> or a \<^verbatim>\<open>dict\<close>.
\<close>

datatype json =
    JNull
  | JBool bool
  | JInt int
  | JFloat rat
  | JStr string
  | JArr "json list"
  | JObj "(string \<times> json) list"

text \<open>Truth value testing, as \<^verbatim>\<open>if cost_field\<close> does it.\<close>

fun py_truthy :: "json \<Rightarrow> bool" where
  "py_truthy JNull = False"
| "py_truthy (JBool b) = b"
| "py_truthy (JInt n) = (n \<noteq> 0)"
| "py_truthy (JFloat x) = (x \<noteq> 0)"
| "py_truthy (JStr s) = (s \<noteq> [])"
| "py_truthy (JArr xs) = (xs \<noteq> [])"
| "py_truthy (JObj kvs) = (kvs \<noteq> [])"

text \<open>
  Rounding a rational to the nearest float: 53 significant bits, ties to the even
  significand. \<open>floor_log2 x\<close> is the exponent \<open>e\<close> with \<open>2\<^sup>e \<le> x < 2\<^sup>e\<^sup>+\<^sup>1\<close> for \<open>x > 0\<close>.
\<close>

definition pow2 :: "int \<Rightarrow> rat" where
  "pow2 k = (if 0 \<le> k then 2 ^ nat k else 1 / 2 ^ nat (- k))"

definition floor_log2 :: "rat \<Rightarrow> int" where
  "floor_log2 x =
     (let (p, q) = quotient_of x; d = bitlen p - bitlen q
      in if x < pow2 d then d - 1 else d)"

definition round_half_even :: "rat \<Rightarrow> int" where
  "round_half_even y =
     (let f = \<lfloor>y\<rfloor>; r = y - of_int f
      in if r < 1 / 2 then f else if 1 / 2 < r then f + 1 else if even f then f else f + 1)"

definition rnd53 :: "rat \<Rightarrow> rat" where
  "rnd53 x =
     (if x = 0 then 0
      else (let u = pow2 (floor_log2 \<bar>x\<bar> - 52) in of_int (round_half_even (x / u)) * u))"

definition fadd :: "rat \<Rightarrow> rat \<Rightarrow> rat" where
  "fadd a b = rnd53 (a + b)"

definition fmul :: "rat \<Rightarrow> rat \<Rightarrow> rat" where
  "fmul a b = rnd53 (a * b)"

text \<open>
  \<^verbatim>\<open>a / b\<close> on floats raises \<^verbatim>\<open>ZeroDivisionError\<close> when \<^verbatim>\<open>b\<close> is zero.
\<close>

definition py_truediv :: "rat \<Rightarrow> rat \<Rightarrow> py_error + rat" where
  "py_truediv a b = (if b = 0 then Inl ZeroDivisionError else Inr (rnd53 (a / b)))"

text \<open>
  \<^verbatim>\<open>float(v)\<close>. An \<^verbatim>\<open>int\<close> converts with correct rounding and raises \<^verbatim>\<open>OverflowError\<close>
  ("int too large to convert to float") when it rounds to \<open>2\<^sup>1\<^sup>0\<^sup>2\<^sup>4\<close> or beyond; a
  \<^verbatim>\<open>bool\<close> is an \<^verbatim>\<open>int\<close>; \<^verbatim>\<open>None\<close>, a list and a dict raise \<^verbatim>\<open>TypeError\<close>. Parsing a
  string is Python's own: \<open>float_of_str\<close> is a parameter, \<open>None\<close> where Python raises
  \<^verbatim>\<open>ValueError\<close>.
\<close>

definition float_int_bound :: int where
  "float_int_bound = 2 ^ 1024 - 2 ^ 970"

definition float_of_int :: "int \<Rightarrow> py_error + rat" where
  "float_of_int n =
     (if float_int_bound \<le> \<bar>n\<bar> then Inl OverflowError else Inr (rnd53 (of_int n)))"

fun py_float :: "(string \<Rightarrow> rat option) \<Rightarrow> json \<Rightarrow> py_error + rat" where
  "py_float float_of_str JNull = Inl TypeError"
| "py_float float_of_str (JBool b) = float_of_int (if b then 1 else 0)"
| "py_float float_of_str (JInt n) = float_of_int n"
| "py_float float_of_str (JFloat x) = Inr x"
| "py_float float_of_str (JStr s) =
     (case float_of_str s of None \<Rightarrow> Inl ValueError | Some x \<Rightarrow> Inr x)"
| "py_float float_of_str (JArr xs) = Inl TypeError"
| "py_float float_of_str (JObj kvs) = Inl TypeError"

text \<open>
  A stand-in for \<^verbatim>\<open>float\<close> on strings, used in the examples only: it reads a non-empty
  string of decimal digits and rejects every other string.
\<close>

definition digit_val :: "char \<Rightarrow> int" where
  "digit_val c = (of_char c :: int) - 48"

definition is_digit :: "char \<Rightarrow> bool" where
  "is_digit c = (48 \<le> (of_char c :: int) \<and> (of_char c :: int) \<le> 57)"

definition digits_float :: "string \<Rightarrow> rat option" where
  "digits_float s =
     (if s \<noteq> [] \<and> list_all is_digit s
      then Some (rnd53 (of_int (foldl (\<lambda>n c. 10 * n + digit_val c) 0 s)))
      else None)"

subsection \<open>Raw records and cost extraction\<close>

text \<open>
  A raw record of the data source. The text columns are strings (the code calls
  \<^verbatim>\<open>strip\<close>, \<^verbatim>\<open>lower\<close> and \<^verbatim>\<open>len\<close> on them unguarded); the cost column
  \<^verbatim>\<open>pre_discount_extended_eligible_line_item_costs\<close> is kept as the JSON value it is,
  since the code guards its conversion.
\<close>

record raw_record =
  text_fields :: "string \<rightharpoonup> string"
  cost_value :: "json option"

definition get_text :: "raw_record \<Rightarrow> string \<Rightarrow> string \<Rightarrow> string" where
  "get_text record key dflt = (case text_fields record key of None \<Rightarrow> dflt | Some s \<Rightarrow> s)"

text \<open>
  \<^verbatim>\<open>extract_cost_from_record\<close>; the state/year summary has the same lines inline.
  \<^verbatim>\<open>except (ValueError, TypeError)\<close> catches these two errors; any other propagates.
\<close>

definition extract_cost_from_record :: "(string \<Rightarrow> rat option) \<Rightarrow> raw_record \<Rightarrow> py_error + rat" where
  "extract_cost_from_record float_of_str record =
     (let cost_field = (case cost_value record of None \<Rightarrow> JStr ''0'' | Some v \<Rightarrow> v)
      in if py_truthy cost_field
         then (case py_float float_of_str cost_field of
                 Inr x \<Rightarrow> Inr x
               | Inl ValueError \<Rightarrow> Inr 0
               | Inl TypeError \<Rightarrow> Inr 0
               | Inl e \<Rightarrow> Inl e)
         else Inr 0)"

subsection \<open>Fetching one year of an organization's records\<close>

text \<open>
  The data source is a function from the request parameters (\<^verbatim>\<open>$where\<close>, \<^verbatim>\<open>$limit\<close>) to
  what \<^verbatim>\<open>requests.get\<close>, \<^verbatim>\<open>raise_for_status\<close> and \<^verbatim>\<open>response.json\<close> give together: the
  decoded list of records, or the exception one of the three raised.
  \<^verbatim>\<open>fetch_data_for_year\<close> returns the requests it issued, in order, with the records it
  returns; both \<^verbatim>\<open>except\<close> clauses return the empty list.
\<close>

datatype fetch_error = RequestException | JSONDecodeError

record query_params =
  where_clause :: string
  row_limit :: int

type_synonym data_source = "query_params \<Rightarrow> fetch_error + raw_record list"

definition escape_quotes :: "string \<Rightarrow> string" where
  "escape_quotes s = concat (map (\<lambda>c. if c = CHR 0x27 then [CHR 0x27, CHR 0x27] else [c]) s)"

definition year_and_current :: "string \<Rightarrow> string" where
  "year_and_current year =
     ''funding_year='' @ [CHR 0x27] @ year @ [CHR 0x27] @
     '' AND form_version='' @ [CHR 0x27] @ ''Current'' @ [CHR 0x27] @
     '' AND upper(organization_name)''"

definition exact_where :: "string \<Rightarrow> string \<Rightarrow> string" where
  "exact_where year org_escaped =
     year_and_current year @ ''=upper('' @ [CHR 0x27] @ org_escaped @ [CHR 0x27] @ '')''"

definition partial_where :: "string \<Rightarrow> string \<Rightarrow> string" where
  "partial_where year org_escaped =
     year_and_current year @ '' LIKE upper('' @ [CHR 0x27] @ ''%'' @ org_escaped @ ''%'' @
     [CHR 0x27] @ '')''"

definition fetch_data_for_year ::
    "data_source \<Rightarrow> string \<Rightarrow> string \<Rightarrow> int \<Rightarrow> query_params list \<times> raw_record list" where
  "fetch_data_for_year api organization_name year limit =
     (let org_escaped = escape_quotes organization_name;
          params = \<lparr>where_clause = exact_where year org_escaped, row_limit = limit\<rparr>
      in case api params of
           Inl e \<Rightarrow> ([params], [])
         | Inr data \<Rightarrow>
             if data = []
             then (let params' = params\<lparr>where_clause := partial_where year org_escaped\<rparr>
                   in case api params' of
                        Inl e \<Rightarrow> ([params, params'], [])
                      | Inr data' \<Rightarrow> ([params, params'], data'))
             else ([params], data))"

text \<open>The two requests of a fetch, and \<^verbatim>\<open>fetch_all_years_data\<close> over 2016 to 2025.\<close>

definition exact_query :: "string \<Rightarrow> string \<Rightarrow> int \<Rightarrow> query_params" where
  "exact_query organization_name year limit =
     \<lparr>where_clause = exact_where year (escape_quotes organization_name), row_limit = limit\<rparr>"

definition partial_query :: "string \<Rightarrow> string \<Rightarrow> int \<Rightarrow> query_params" where
  "partial_query organization_name year limit =
     \<lparr>where_clause = partial_where year (escape_quotes organization_name), row_limit = limit\<rparr>"

definition all_years :: "string list" where
  "all_years = [''2016'', ''2017'', ''2018'', ''2019'', ''2020'', ''2021'', ''2022'', ''2023'',
                ''2024'', ''2025'']"

definition fetch_all_years_data :: "data_source \<Rightarrow> string \<Rightarrow> (string \<times> raw_record list) list" where
  "fetch_all_years_data api organization_name =
     filter (\<lambda>(year, year_data). year_data \<noteq> [])
       (map (\<lambda>year. (year, snd (fetch_data_for_year api organization_name year 10000))) all_years)"

subsection \<open>Dictionaries with a default\<close>

text \<open>
  \<^verbatim>\<open>d[k] = f(d[k])\<close> on a \<^verbatim>\<open>defaultdict\<close> whose missing value is \<open>dflt\<close> (and
  \<^verbatim>\<open>d[k] = f(d.get(k, dflt))\<close> on a plain dictionary): an existing key keeps its place,
  a new key goes last.
\<close>

fun upsert :: "'k \<Rightarrow> ('v \<Rightarrow> 'v) \<Rightarrow> 'v \<Rightarrow> ('k \<times> 'v) list \<Rightarrow> ('k \<times> 'v) list" where
  "upsert k f dflt [] = [(k, f dflt)]"
| "upsert k f dflt ((k', v) # al) =
     (if k' = k then (k', f v) # al else (k', v) # upsert k f dflt al)"


subsection \<open>Organization search\<close>















subsection \<open>Format specifications\<close>

text \<open>
  The format specifications of the f-strings. \<open>py_format_f comma d x\<close> is the fixed-point
  presentation \<^verbatim>\<open>,.2f\<close> and \<^verbatim>\<open>,.0f\<close> (with \<open>comma\<close>) or \<^verbatim>\<open>.1f\<close> (without): the value
  rounded to \<open>d\<close> decimals, ties to even, a minus sign for a negative value, the integer
  digits in groups of three when \<open>comma\<close> is set, and a point with \<open>d\<close> digits when
  \<open>d > 0\<close>. \<open>py_format_d\<close> is the integer presentation \<^verbatim>\<open>d\<close> and \<^verbatim>\<open>,\<close>. \<open>rjust\<close> and
  \<open>ljust\<close> are the alignments to a minimum width.
\<close>

function digits_of :: "int \<Rightarrow> string" where
  "digits_of n =
     (if n < 10 then [char_of (48 + n)]
      else digits_of (n div 10) @ [char_of (48 + n mod 10)])"
  by pat_completeness auto
termination
  by (relation "measure nat") auto

function group3 :: "string \<Rightarrow> string" where
  "group3 ds =
     (if length ds \<le> 3 then ds
      else group3 (take (length ds - 3) ds) @ '','' @ drop (length ds - 3) ds)"
  by pat_completeness auto
termination
  by (relation "measure length") auto

definition zero_pad :: "nat \<Rightarrow> string \<Rightarrow> string" where
  "zero_pad w s = replicate (w - length s) (CHR ''0'') @ s"

definition rjust :: "nat \<Rightarrow> string \<Rightarrow> string" where
  "rjust w s = replicate (w - length s) (CHR '' '') @ s"

definition ljust :: "nat \<Rightarrow> string \<Rightarrow> string" where
  "ljust w s = s @ replicate (w - length s) (CHR '' '')"

definition py_format_f :: "bool \<Rightarrow> nat \<Rightarrow> rat \<Rightarrow> string" where
  "py_format_f comma d x =
     (let n = round_half_even (\<bar>x\<bar> * 10 ^ d);
          int_digits = digits_of (n div 10 ^ d);
          frac_digits = zero_pad d (digits_of (n mod 10 ^ d))
      in (if x < 0 then ''-'' else []) @
         (if comma then group3 int_digits else int_digits) @
         (if d = 0 then [] else ''.'' @ frac_digits))"

definition py_format_d :: "bool \<Rightarrow> int \<Rightarrow> string" where
  "py_format_d comma n =
     (if n < 0 then ''-'' else []) @
     (if comma then group3 (digits_of \<bar>n\<bar>) else digits_of \<bar>n\<bar>)"

text \<open>The amounts of the reports: \<^verbatim>\<open>{x:,.2f}\<close> and \<^verbatim>\<open>{x:,.0f}\<close>.\<close>

definition money2 :: "rat \<Rightarrow> string" where
  "money2 x = py_format_f True 2 x"

definition money0 :: "rat \<Rightarrow> string" where
  "money0 x = py_format_f True 0 x"

text \<open>
  The layout of an amount, as a check on a string: an optional minus sign, a first group of
  one to three digits, any number of groups of a comma and three digits, and then nothing
  (\<open>d = 0\<close>) or a point and exactly \<open>d\<close> digits. Leading spaces (from an alignment) are
  skipped.
\<close>

fun comma_groups :: "string \<Rightarrow> bool" where
  "comma_groups [] = True"
| "comma_groups (c # a # b # e # rest) =
     (c = CHR '','' \<and> is_digit a \<and> is_digit b \<and> is_digit e \<and> comma_groups rest)"
| "comma_groups _ = False"

definition grouped_digits :: "string \<Rightarrow> bool" where
  "grouped_digits s =
     (let lead = takeWhile is_digit s
      in 1 \<le> length lead \<and> length lead \<le> 3 \<and> comma_groups (dropWhile is_digit s))"

definition amount_layout :: "nat \<Rightarrow> string \<Rightarrow> bool" where
  "amount_layout d s =
     (let t = dropWhile (\<lambda>c. c = CHR '' '') s;
          u = (if t \<noteq> [] \<and> hd t = CHR ''-'' then tl t else t);
          ip = takeWhile (\<lambda>c. c \<noteq> CHR ''.'') u;
          fp = dropWhile (\<lambda>c. c \<noteq> CHR ''.'') u
      in grouped_digits ip \<and>
         (if d = 0 then fp = []
          else fp \<noteq> [] \<and> length (tl fp) = d \<and> list_all is_digit (tl fp)))"

subsection \<open>Organization history: filtering\<close>

text \<open>
  The dictionary \<^verbatim>\<open>filter_record\<close> of \<^verbatim>\<open>SchoolERateAnalyzer\<close> builds, as a record.
  \<^verbatim>\<open>filter_record\<close> returns \<^verbatim>\<open>None\<close> for a manufacturer that is no target vendor; the
  cost extraction is its only call that can raise. \<^verbatim>\<open>process_year_data\<close> keeps the
  records that pass, in order.
\<close>

record filtered_record =
  funding_year :: string
  application_number :: string
  organization_name :: string
  form_471_product_name :: string
  form_471_manufacturer_name :: string
  standardized_vendor :: string
  model_of_equipment :: string
  one_time_quantity :: string
  cost :: rat

definition filter_record ::
    "(string \<Rightarrow> rat option) \<Rightarrow> vendor_table \<Rightarrow> raw_record \<Rightarrow> py_error + filtered_record option" where
  "filter_record float_of_str vm record =
     (let manufacturer = get_text record ''form_471_manufacturer_name'' ''''
      in if \<not> is_target_vendor vm manufacturer then Inr None
         else (case extract_cost_from_record float_of_str record of
                 Inl e \<Rightarrow> Inl e
               | Inr c \<Rightarrow>
                   Inr (Some \<lparr>funding_year = get_text record ''funding_year'' '''',
                              application_number = get_text record ''application_number'' '''',
                              organization_name = get_text record ''organization_name'' '''',
                              form_471_product_name = get_text record ''form_471_product_name'' '''',
                              form_471_manufacturer_name = manufacturer,
                              standardized_vendor = get_standardized_vendor vm manufacturer,
                              model_of_equipment = get_text record ''model_of_equipment'' '''',
                              one_time_quantity = get_text record ''one_time_quantity'' ''0'',
                              cost = c\<rparr>)))"

fun process_year_data ::
    "(string \<Rightarrow> rat option) \<Rightarrow> vendor_table \<Rightarrow> raw_record list \<Rightarrow> py_error + filtered_record list" where
  "process_year_data float_of_str vm [] = Inr []"
| "process_year_data float_of_str vm (record # raw_data) =
     (case filter_record float_of_str vm record of
        Inl e \<Rightarrow> Inl e
      | Inr None \<Rightarrow> process_year_data float_of_str vm raw_data
      | Inr (Some filtered) \<Rightarrow>
          (case process_year_data float_of_str vm raw_data of
             Inl e \<Rightarrow> Inl e
           | Inr filtered_records \<Rightarrow> Inr (filtered # filtered_records)))"

subsection \<open>Organization history: grouping by vendor\<close>

text \<open>
  An entry of a vendor's \<^verbatim>\<open>items\<close> list, and \<^verbatim>\<open>vendor_data\<close>: per vendor, in order of first
  appearance, the running total and the items in input order. \<open>py_sum\<close> is
  \<^verbatim>\<open>sum\<close> over floats, left to right from 0.
\<close>

record item =
  model :: string
  product_name :: string
  quantity :: string
  item_cost :: rat
  app_number :: string

type_synonym vendor_data = "(string \<times> (rat \<times> item list)) list"

definition item_of :: "filtered_record \<Rightarrow> item" where
  "item_of record =
     \<lparr>model = model_of_equipment record,
      product_name = form_471_product_name record,
      quantity = one_time_quantity record,
      item_cost = cost record,
      app_number = application_number record\<rparr>"

definition vendor_step :: "filtered_record \<Rightarrow> vendor_data \<Rightarrow> vendor_data" where
  "vendor_step record vd =
     upsert (standardized_vendor record)
       (\<lambda>(total, items). (fadd total (cost record), items @ [item_of record])) (0, []) vd"

definition group_by_vendor :: "filtered_record list \<Rightarrow> vendor_data" where
  "group_by_vendor records = fold vendor_step records []"

definition py_sum :: "rat list \<Rightarrow> rat" where
  "py_sum xs = foldl fadd 0 xs"

text \<open>
  \<^verbatim>\<open>sorted(vendor_data.items(), key=lambda x: x[1]['total'], reverse=True)\<close>: Python's sort
  is stable, also with \<^verbatim>\<open>reverse=True\<close>, so this is the stable ascending sort by the
  negated total.
\<close>

definition sorted_vendors :: "vendor_data \<Rightarrow> vendor_data" where
  "sorted_vendors vd = sort_key (\<lambda>(vendor, (total, items)). - total) vd"

subsection \<open>Organization history: rows\<close>

text \<open>
  The label of an item row in the organization history: the model, cut to 42 characters
  and an ellipsis when longer than 45; unless the model holds both parentheses, the
  application number is put in front, and when that exceeds 45 characters the model is cut
  to the space left, or, when no more than 10 characters are left, the model is cut to 42
  characters and an ellipsis without the prefix.
\<close>

definition truncate_model :: "string \<Rightarrow> string" where
  "truncate_model m = (if 45 < length m then take 42 m @ ''...'' else m)"

definition item_label :: "item \<Rightarrow> string" where
  "item_label it =
     (let m = truncate_model (model it)
      in if CHR ''('' \<in> set (model it) \<and> CHR '')'' \<in> set (model it) then m
         else (let app_info = ''(App '' @ app_number it @ '') ''
               in if 45 < length (app_info @ m)
                  then (let available_space = 45 - int (length app_info) - 3
                        in if 10 < available_space
                           then app_info @ take (nat available_space) m @ ''...''
                           else take 42 m @ ''...'')
                  else app_info @ m))"

definition qty_str :: "string \<Rightarrow> string" where
  "qty_str q = (if q \<noteq> [] \<and> q \<noteq> ''0'' then ''Qty '' @ q else ''Qty N/A'')"

text \<open>
  The rows of the organization history report, one constructor per \<^verbatim>\<open>print\<close>, holding the
  formatted fields. The footer's time stamp is left out.
\<close>

datatype history_row =
    NoDataFound string
  | NoEquipmentFound string
  | Rule
  | Title string
  | Subtitle
  | YearsWithData string
  | TotalFunding string
  | SkuThreshold string
  | Blank
  | YearVendorLine string string string
  | VendorLine string string
  | ItemLine string string string
  | NoItemsLine string
  | Footer

definition item_row :: "item \<Rightarrow> history_row" where
  "item_row it =
     ItemLine (ljust 45 (item_label it)) (rjust 8 (qty_str (quantity it)))
       (rjust 10 (money0 (item_cost it)))"

text \<open>
  The rows of one vendor of one year: its summary line (with the year for the first
  vendor), then the rows of its items at or above the threshold by descending cost, or the
  placeholder row when there is none, and a blank line.
\<close>

definition vendor_rows :: "rat \<Rightarrow> string \<Rightarrow> nat \<times> (string \<times> (rat \<times> item list)) \<Rightarrow> history_row list" where
  "vendor_rows sku_threshold year iv =
     (case iv of (vendor_idx, (vendor, (vendor_total, items))) \<Rightarrow>
        (if vendor_idx = 0 then YearVendorLine year vendor (money0 vendor_total)
         else VendorLine vendor (money0 vendor_total)) #
        (let items_above_threshold = filter (\<lambda>it. sku_threshold \<le> item_cost it) items
         in if items_above_threshold \<noteq> []
            then map item_row (sort_key (\<lambda>it. - item_cost it) items_above_threshold)
            else [NoItemsLine (money0 sku_threshold)]) @
        [Blank])"

definition year_rows :: "rat \<Rightarrow> string \<times> filtered_record list \<Rightarrow> history_row list" where
  "year_rows sku_threshold yr =
     (case yr of (year, records) \<Rightarrow>
        concat (map (vendor_rows sku_threshold year)
                  (enumerate 0 (sorted_vendors (group_by_vendor records)))))"

definition join_comma :: "string list \<Rightarrow> string" where
  "join_comma xs = (case xs of [] \<Rightarrow> [] | x # rest \<Rightarrow> x @ concat (map (\<lambda>y. '', '' @ y) rest))"

text \<open>
  \<^verbatim>\<open>processed_data[year] = processed_records\<close> for the years with a record left, and the
  grand total: the sum of the yearly sums. A year occurs once in \<^verbatim>\<open>all_data\<close> (a
  dictionary), so the lookup of a sorted year finds its records.
\<close>

fun process_all ::
    "(string \<Rightarrow> rat option) \<Rightarrow> vendor_table \<Rightarrow> (string \<times> raw_record list) list \<Rightarrow>
     (string \<times> filtered_record list) list \<times> rat \<Rightarrow>
     py_error + (string \<times> filtered_record list) list \<times> rat" where
  "process_all float_of_str vm [] acc = Inr acc"
| "process_all float_of_str vm ((year, raw_data) # rest) (processed_data, total_all_years) =
     (case process_year_data float_of_str vm raw_data of
        Inl e \<Rightarrow> Inl e
      | Inr processed_records \<Rightarrow>
          if processed_records \<noteq> []
          then process_all float_of_str vm rest
                 (upsert year (\<lambda>old. processed_records) [] processed_data,
                  fadd total_all_years (py_sum (map cost processed_records)))
          else process_all float_of_str vm rest (processed_data, total_all_years))"

definition history_rows ::
    "string \<Rightarrow> (string \<times> filtered_record list) list \<Rightarrow> rat \<Rightarrow> rat \<Rightarrow> history_row list" where
  "history_rows organization processed_data total_all_years sku_threshold =
     [Rule, Title (py_upper organization), Subtitle, Rule,
      YearsWithData (join_comma (sort (map fst processed_data))),
      TotalFunding (money2 total_all_years),
      SkuThreshold (money0 sku_threshold),
      Blank] @
     concat (map (\<lambda>year. year_rows sku_threshold
                            (year, case map_of processed_data year of None \<Rightarrow> [] | Some rs \<Rightarrow> rs))
               (sort (map fst processed_data))) @
     [Footer]"

definition generate_school_history_report ::
    "(string \<Rightarrow> rat option) \<Rightarrow> vendor_table \<Rightarrow> string \<Rightarrow> (string \<times> raw_record list) list \<Rightarrow> rat \<Rightarrow>
     py_error + history_row list" where
  "generate_school_history_report float_of_str vm organization all_data sku_threshold =
     (if all_data = [] then Inr [NoDataFound organization]
      else (case process_all float_of_str vm all_data ([], 0) of
              Inl e \<Rightarrow> Inl e
            | Inr (processed_data, total_all_years) \<Rightarrow>
                if processed_data = [] then Inr [NoEquipmentFound organization]
                else Inr (history_rows organization processed_data total_all_years sku_threshold)))"

text \<open>
  A raw record of an equipment line, for the examples: the vendor (a name that is its own
  canonical form, such as \<^verbatim>\<open>Cisco\<close> or \<^verbatim>\<open>Hp\<close>), the organization, the model and the text
  of the cost column.
\<close>

definition line_record :: "string \<Rightarrow> string \<Rightarrow> string \<Rightarrow> string \<Rightarrow> raw_record" where
  "line_record vendor org mdl cost_text =
     \<lparr>text_fields = [''form_471_manufacturer_name'' \<mapsto> vendor,
                      ''organization_name'' \<mapsto> org,
                      ''standardized_vendor'' \<mapsto> vendor,
                      ''model_of_equipment'' \<mapsto> mdl,
                      ''application_number'' \<mapsto> ''221001234'',
                      ''one_time_quantity'' \<mapsto> ''3''],
      cost_value = Some (JStr cost_text)\<rparr>"

subsection \<open>State/year summary: aggregation\<close>

text \<open>
  The dictionaries \<^verbatim>\<open>generate_summary\<close> fills in its loop over the records:
  \<^verbatim>\<open>vendor_counts\<close>, \<^verbatim>\<open>vendor_totals\<close>, \<^verbatim>\<open>total_funding\<close>, \<^verbatim>\<open>school_vendor_totals\<close> and
  \<^verbatim>\<open>school_vendor_items\<close>. \<open>summary_step\<close> is the body of the loop; the cost is extracted
  with the same lines as \<^verbatim>\<open>extract_cost_from_record\<close>, and an exception it raises ends
  the loop.
\<close>

record sku_item =
  sku_model :: string
  sku_quantity :: string
  sku_cost :: rat
  sku_product_name :: string

record summary_acc =
  vendor_counts :: "(string \<times> int) list"
  vendor_totals :: "(string \<times> rat) list"
  total_funding :: rat
  school_vendor_totals :: "(string \<times> (string \<times> rat) list) list"
  school_vendor_items :: "(string \<times> (string \<times> sku_item list) list) list"

definition empty_acc :: summary_acc where
  "empty_acc = \<lparr>vendor_counts = [], vendor_totals = [], total_funding = 0,
                 school_vendor_totals = [], school_vendor_items = []\<rparr>"

definition accumulate :: "string \<Rightarrow> string \<Rightarrow> rat \<Rightarrow> sku_item \<Rightarrow> summary_acc \<Rightarrow> summary_acc" where
  "accumulate vendor school c item_info acc =
     \<lparr>vendor_counts = upsert vendor (\<lambda>n. n + 1) 0 (vendor_counts acc),
      vendor_totals = upsert vendor (\<lambda>t. fadd t c) 0 (vendor_totals acc),
      total_funding = fadd (total_funding acc) c,
      school_vendor_totals =
        upsert vendor (\<lambda>schools. upsert school (\<lambda>t. fadd t c) 0 schools) []
          (school_vendor_totals acc),
      school_vendor_items =
        upsert vendor (\<lambda>schools. upsert school (\<lambda>items. items @ [item_info]) [] schools) []
          (school_vendor_items acc)\<rparr>"

definition summary_step ::
    "(string \<Rightarrow> rat option) \<Rightarrow> raw_record \<Rightarrow> summary_acc \<Rightarrow> py_error + summary_acc" where
  "summary_step float_of_str record acc =
     (let vendor = get_text record ''standardized_vendor'' ''Unknown'';
          school = get_text record ''organization_name'' ''Unknown School''
      in case extract_cost_from_record float_of_str record of
           Inl e \<Rightarrow> Inl e
         | Inr c \<Rightarrow>
             Inr (accumulate vendor school c
                    \<lparr>sku_model = get_text record ''model_of_equipment'' ''Unknown Model'',
                     sku_quantity = get_text record ''one_time_quantity'' ''0'',
                     sku_cost = c,
                     sku_product_name = get_text record ''form_471_product_name'' ''Unknown Product''\<rparr>
                    acc))"

fun aggregate_summary ::
    "(string \<Rightarrow> rat option) \<Rightarrow> raw_record list \<Rightarrow> summary_acc \<Rightarrow> py_error + summary_acc" where
  "aggregate_summary float_of_str [] acc = Inr acc"
| "aggregate_summary float_of_str (record # data) acc =
     (case summary_step float_of_str record acc of
        Inl e \<Rightarrow> Inl e
      | Inr acc' \<Rightarrow> aggregate_summary float_of_str data acc')"

subsection \<open>State/year summary: rows\<close>

text \<open>
  \<^verbatim>\<open>percentage = (total / total_funding * 100) if total_funding > 0 else 0\<close>.
\<close>

definition vendor_percentage :: "rat \<Rightarrow> rat \<Rightarrow> py_error + rat" where
  "vendor_percentage vendor_total funding =
     (if 0 < funding
      then (case py_truediv vendor_total funding of
              Inl e \<Rightarrow> Inl e
            | Inr q \<Rightarrow> Inr (fmul q 100))
      else Inr 0)"

text \<open>
  The rows of the summary, one constructor per \<^verbatim>\<open>print\<close>; the footer's time stamp is left
  out. The label of an item row is the model, cut to 42 characters and an ellipsis when
  longer than 45.
\<close>

datatype summary_row =
    NoSummaryData
  | SummaryRule
  | SummaryTitle string
  | TotalRecords string
  | SummaryTotalFunding string
  | UniqueOrganizations string
  | SchoolThreshold string
  | SummarySkuThreshold string
  | SummaryBlank
  | VendorBreakdown
  | SummaryVendorLine string string string string string
  | SchoolLine string string
  | SkuLine string string string
  | NoSchoolsLine string
  | SummaryFooter

definition sku_row :: "sku_item \<Rightarrow> summary_row" where
  "sku_row it =
     SkuLine (ljust 45 (truncate_model (sku_model it))) (rjust 8 (qty_str (sku_quantity it)))
       (rjust 10 (money0 (sku_cost it)))"

text \<open>
  The rows of one organization shown under a vendor: its line, the rows of its items at or
  above the item threshold by descending cost, and a blank line when there is such a row.
\<close>

definition school_rows ::
    "rat \<Rightarrow> (string \<times> sku_item list) list \<Rightarrow> string \<times> rat \<Rightarrow> summary_row list" where
  "school_rows sku_threshold vendor_items st =
     (case st of (school_name, school_total) \<Rightarrow>
        SchoolLine (ljust 50 school_name) (rjust 10 (money0 school_total)) #
        (case map_of vendor_items school_name of
           None \<Rightarrow> []
         | Some items \<Rightarrow>
             (let shown = filter (\<lambda>it. sku_threshold \<le> sku_cost it)
                            (sort_key (\<lambda>it. - sku_cost it) items)
              in map sku_row shown @ (if 0 < length shown then [SummaryBlank] else []))))"

text \<open>
  The rows of one vendor: its line, the rows of its organizations at or above the school
  threshold by descending total, the placeholder row when no organization is shown, and a
  blank line.
\<close>

definition summary_vendor_rows ::
    "rat \<Rightarrow> rat \<Rightarrow> summary_acc \<Rightarrow> nat \<times> (string \<times> rat) \<Rightarrow> py_error + summary_row list" where
  "summary_vendor_rows school_threshold sku_threshold acc iv =
     (case iv of (vendor_idx, (vendor, vendor_total)) \<Rightarrow>
        (let count = (case map_of (vendor_counts acc) vendor of None \<Rightarrow> 0 | Some n \<Rightarrow> n)
         in case vendor_percentage vendor_total (total_funding acc) of
              Inl e \<Rightarrow> Inl e
            | Inr percentage \<Rightarrow>
                Inr (SummaryVendorLine (rjust 2 (py_format_d False (int vendor_idx)))
                       (ljust 18 vendor) (rjust 13 (money2 vendor_total))
                       (rjust 5 (py_format_f False 1 percentage))
                       (rjust 4 (py_format_d False count)) #
                     (case map_of (school_vendor_totals acc) vendor of
                        None \<Rightarrow> []
                      | Some schools \<Rightarrow>
                          (let school_totals = sort_key (\<lambda>(school_name, school_total). - school_total) schools;
                               shown = filter (\<lambda>(school_name, school_total). school_threshold \<le> school_total)
                                         school_totals;
                               vendor_items = (case map_of (school_vendor_items acc) vendor of
                                                 None \<Rightarrow> [] | Some m \<Rightarrow> m)
                           in concat (map (school_rows sku_threshold vendor_items) shown) @
                              (if length shown = 0 then [NoSchoolsLine (money0 school_threshold)]
                               else []))) @
                     [SummaryBlank])))"

text \<open>The first error of a list of results, or all the values.\<close>

fun collect :: "('e + 'a) list \<Rightarrow> 'e + 'a list" where
  "collect [] = Inr []"
| "collect (r # rs) =
     (case r of
        Inl e \<Rightarrow> Inl e
      | Inr x \<Rightarrow> (case collect rs of Inl e \<Rightarrow> Inl e | Inr xs \<Rightarrow> Inr (x # xs)))"

text \<open>
  \<^verbatim>\<open>sorted(vendor_totals.items(), key=lambda x: x[1], reverse=True)\<close>, a stable sort.
\<close>

definition summary_sorted_vendors :: "(string \<times> rat) list \<Rightarrow> (string \<times> rat) list" where
  "summary_sorted_vendors totals = sort_key (\<lambda>(vendor, vendor_total). - vendor_total) totals"

definition generate_summary ::
    "(string \<Rightarrow> rat option) \<Rightarrow> raw_record list \<Rightarrow> string \<Rightarrow> string \<Rightarrow> rat \<Rightarrow> rat \<Rightarrow>
     py_error + summary_row list" where
  "generate_summary float_of_str data state year school_threshold sku_threshold =
     (if data = [] then Inr [NoSummaryData]
      else (case aggregate_summary float_of_str data empty_acc of
              Inl e \<Rightarrow> Inl e
            | Inr acc \<Rightarrow>
                (case collect (map (summary_vendor_rows school_threshold sku_threshold acc)
                                 (enumerate 1 (summary_sorted_vendors (vendor_totals acc)))) of
                   Inl e \<Rightarrow> Inl e
                 | Inr blocks \<Rightarrow>
                     Inr ([SummaryRule,
                           SummaryTitle (py_upper state @ '' E-RATE '' @ year @
                                         '' - VENDOR ANALYSIS SUMMARY''),
                           SummaryRule,
                           TotalRecords (py_format_d True (int (length data))),
                           SummaryTotalFunding (money2 (total_funding acc)),
                           UniqueOrganizations
                             (py_format_d True
                                (int (length (remdups (map (\<lambda>r. get_text r ''organization_name'' '''') data))))),
                           SchoolThreshold (money0 school_threshold),
                           SummarySkuThreshold (money0 sku_threshold),
                           SummaryBlank, VendorBreakdown, SummaryBlank] @
                          concat blocks @ [SummaryFooter]))))"

subsection \<open>Orders and layouts the reports are held against\<close>






subsection \<open>The columns the summary reads\<close>

text \<open>
  The vendor and the organization of a record as \<^verbatim>\<open>generate_summary\<close> reads them, the cost
  of a record whose extraction does not raise, and the item stored for it.
  \<open>summary_pure_step\<close> is the body of the loop for such a record.
\<close>

definition summary_vendor :: "raw_record \<Rightarrow> string" where
  "summary_vendor r = get_text r ''standardized_vendor'' ''Unknown''"

definition summary_school :: "raw_record \<Rightarrow> string" where
  "summary_school r = get_text r ''organization_name'' ''Unknown School''"

definition cost_or_zero :: "(string \<Rightarrow> rat option) \<Rightarrow> raw_record \<Rightarrow> rat" where
  "cost_or_zero float_of_str r =
     (case extract_cost_from_record float_of_str r of Inl e \<Rightarrow> 0 | Inr c \<Rightarrow> c)"

definition summary_item :: "(string \<Rightarrow> rat option) \<Rightarrow> raw_record \<Rightarrow> sku_item" where
  "summary_item float_of_str r =
     \<lparr>sku_model = get_text r ''model_of_equipment'' ''Unknown Model'',
      sku_quantity = get_text r ''one_time_quantity'' ''0'',
      sku_cost = cost_or_zero float_of_str r,
      sku_product_name = get_text r ''form_471_product_name'' ''Unknown Product''\<rparr>"

definition summary_pure_step :: "(string \<Rightarrow> rat option) \<Rightarrow> raw_record \<Rightarrow> summary_acc \<Rightarrow> summary_acc" where
  "summary_pure_step float_of_str r acc =
     accumulate (summary_vendor r) (summary_school r) (cost_or_zero float_of_str r)
       (summary_item float_of_str r) acc"

subsection \<open>Rows beneath a summary line\<close>






section \<open>Theorems\<close>

subsection \<open>Vendor canonicalization\<close>










subsection \<open>Cost extraction\<close>

lemma int_beyond_float_range: "float_int_bound \<le> \<bar>10 ^ 400\<bar>"
  by code_simp

lemma float_int_bound_gt_1: "1 < float_int_bound"
  by code_simp

lemma ten_power_nonzero: "(10::int) ^ 400 \<noteq> 0"
  by simp

text \<open>
  Claim C2. Cost extraction is to return 0 and never raise when the cost field is absent,
  empty or not convertible to a number. It does raise on one kind of record: a cost field
  holding an integer beyond the range of a float (here \<open>10\<^sup>4\<^sup>0\<^sup>0\<close>, which \<^verbatim>\<open>response.json()\<close>
  decodes to an \<^verbatim>\<open>int\<close>) makes \<^verbatim>\<open>float\<close> raise \<^verbatim>\<open>OverflowError\<close>, which
  \<^verbatim>\<open>except (ValueError, TypeError)\<close> does not catch.
\<close>

theorem extract_cost_overflow:
  "extract_cost_from_record float_of_str
     \<lparr>text_fields = Map.empty, cost_value = Some (JInt (10 ^ 400))\<rparr> = Inl OverflowError"
proof -
  have t: "py_truthy (JInt (10 ^ 400))" using ten_power_nonzero by simp
  have f: "py_float float_of_str (JInt (10 ^ 400)) = Inl OverflowError"
    using int_beyond_float_range by (simp only: py_float.simps float_of_int_def if_True)
  show ?thesis
    unfolding extract_cost_from_record_def Let_def
    by (simp only: raw_record.simps option.case t f if_True sum.case py_error.case)
qed

text \<open>
  On every other record the extraction is lenient as described: when the cost field is not
  an integer beyond the float range, the result is a number; it is 0 for a field that is
  falsy (empty string, \<^verbatim>\<open>None\<close>, zero, empty list or dict), for a string \<^verbatim>\<open>float\<close>
  rejects and for a list or dict; it is the parsed number for a string \<^verbatim>\<open>float\<close> accepts;
  and for an absent field it is what \<^verbatim>\<open>float('0')\<close> is.
\<close>

lemma extract_cost_lenient:
  assumes "\<forall>n. cost_value record = Some (JInt n) \<longrightarrow> \<bar>n\<bar> < float_int_bound"
  shows "(\<exists>x. extract_cost_from_record float_of_str record = Inr x)
     \<and> (cost_value record = None \<longrightarrow>
          extract_cost_from_record float_of_str record =
            Inr (case float_of_str ''0'' of None \<Rightarrow> 0 | Some x \<Rightarrow> x))
     \<and> (\<forall>v. cost_value record = Some v \<and> \<not> py_truthy v \<longrightarrow>
          extract_cost_from_record float_of_str record = Inr 0)
     \<and> (\<forall>s. cost_value record = Some (JStr s) \<and> float_of_str s = None \<longrightarrow>
          extract_cost_from_record float_of_str record = Inr 0)
     \<and> (\<forall>s x. cost_value record = Some (JStr s) \<and> s \<noteq> [] \<and> float_of_str s = Some x \<longrightarrow>
          extract_cost_from_record float_of_str record = Inr x)
     \<and> (\<forall>v. cost_value record = Some v \<and> (v = JNull \<or> (\<exists>xs. v = JArr xs) \<or> (\<exists>kvs. v = JObj kvs)) \<longrightarrow>
          extract_cost_from_record float_of_str record = Inr 0)"
proof (cases "cost_value record")
  case None
  then show ?thesis
    by (simp add: extract_cost_from_record_def split: option.splits)
next
  case (Some v)
  show ?thesis
  proof (cases v)
    case (JInt n)
    with Some assms have "\<bar>n\<bar> < float_int_bound" by simp
    with Some JInt show ?thesis
      by (simp add: extract_cost_from_record_def float_of_int_def)
  next
    case (JBool b)
    with Some float_int_bound_gt_1 show ?thesis
      by (simp add: extract_cost_from_record_def float_of_int_def)
  qed (use Some in \<open>simp_all add: extract_cost_from_record_def split: option.splits\<close>)
qed

lemma extract_cost_lenient_example:
  "extract_cost_from_record digits_float \<lparr>text_fields = Map.empty, cost_value = None\<rparr> = Inr 0
   \<and> extract_cost_from_record digits_float
        \<lparr>text_fields = Map.empty, cost_value = Some (JStr ''n/a'')\<rparr> = Inr 0
   \<and> extract_cost_from_record digits_float
        \<lparr>text_fields = Map.empty, cost_value = Some (JStr ''120000'')\<rparr> = Inr 120000"
proof -
  let ?r1 = "\<lparr>text_fields = Map.empty, cost_value = None\<rparr>"
  let ?r2 = "\<lparr>text_fields = Map.empty, cost_value = Some (JStr ''n/a'')\<rparr>"
  let ?r3 = "\<lparr>text_fields = Map.empty, cost_value = Some (JStr ''120000'')\<rparr>"
  have p0: "digits_float ''0'' = Some 0" by code_simp
  have p2: "digits_float ''n/a'' = None" by code_simp
  have p3: "digits_float ''120000'' = Some 120000" by code_simp
  have a: "extract_cost_from_record digits_float ?r1 = Inr 0"
    using extract_cost_lenient[of ?r1 digits_float] p0 by simp
  have b: "extract_cost_from_record digits_float ?r2 = Inr 0"
    using extract_cost_lenient[of ?r2 digits_float] p2 by simp
  have c: "extract_cost_from_record digits_float ?r3 = Inr 120000"
    using extract_cost_lenient[of ?r3 digits_float] p3 by simp
  from a b c show ?thesis by blast
qed

subsection \<open>Exact match first, partial match on an empty result\<close>

lemma exact_partial_distinct: "exact_query org year limit \<noteq> partial_query org year limit"
  by (simp add: exact_query_def partial_query_def exact_where_def partial_where_def)

text \<open>
  Claim C3. The partial-match request is among the requests issued exactly when the
  exact-match request succeeded with an empty list of records; records returned by the
  exact request are returned as they are, with no second request; an error of the exact
  request issues no second request (and the fetch returns the empty list).
\<close>

theorem partial_query_iff_exact_empty:
  "(partial_query org year limit \<in> set (fst (fetch_data_for_year api org year limit))
      \<longleftrightarrow> api (exact_query org year limit) = Inr [])
   \<and> (\<forall>data. api (exact_query org year limit) = Inr data \<and> data \<noteq> []
        \<longrightarrow> fetch_data_for_year api org year limit = ([exact_query org year limit], data))
   \<and> (\<forall>e. api (exact_query org year limit) = Inl e
        \<longrightarrow> fetch_data_for_year api org year limit = ([exact_query org year limit], []))"
proof -
  let ?q = "exact_query org year limit" and ?p = "partial_query org year limit"
  have ne: "?q \<noteq> ?p" by (rule exact_partial_distinct)
  note ne' = ne[symmetric]
  have upd: "?q\<lparr>where_clause := partial_where year (escape_quotes org)\<rparr> = ?p"
    by (simp add: exact_query_def partial_query_def)
  have unfold: "fetch_data_for_year api org year limit =
     (case api ?q of
        Inl e \<Rightarrow> ([?q], [])
      | Inr data \<Rightarrow>
          if data = []
          then (case api ?p of Inl e \<Rightarrow> ([?q, ?p], []) | Inr data' \<Rightarrow> ([?q, ?p], data'))
          else ([?q], data))"
    unfolding fetch_data_for_year_def Let_def exact_query_def[symmetric] upd ..
  show ?thesis
    unfolding unfold using ne' by (auto split: sum.splits)
qed

text \<open>
  The theorem on a source that answers the exact request with no records and the partial
  request with one, on a source that answers the exact request with one record, and on a
  source whose every request fails.
\<close>

theorem partial_query_iff_exact_empty_witness:
  "partial_query ''ACME'' ''2021'' 10 \<in> set (fst (fetch_data_for_year
     (\<lambda>q. if q = exact_query ''ACME'' ''2021'' 10 then Inr []
          else Inr [\<lparr>text_fields = Map.empty, cost_value = None\<rparr>]) ''ACME'' ''2021'' 10))
   \<and> fetch_data_for_year (\<lambda>q. Inr [\<lparr>text_fields = Map.empty, cost_value = None\<rparr>])
       ''ACME'' ''2021'' 10
     = ([exact_query ''ACME'' ''2021'' 10], [\<lparr>text_fields = Map.empty, cost_value = None\<rparr>])
   \<and> fetch_data_for_year (\<lambda>q. Inl RequestException) ''ACME'' ''2021'' 10
     = ([exact_query ''ACME'' ''2021'' 10], [])"
proof -
  let ?r = "\<lparr>text_fields = Map.empty, cost_value = None\<rparr>"
  let ?q = "exact_query ''ACME'' ''2021'' 10" and ?p = "partial_query ''ACME'' ''2021'' 10"
  let ?api1 = "\<lambda>q. if q = ?q then Inr [] else Inr [?r]"
  let ?api2 = "\<lambda>q::query_params. (Inr [?r] :: fetch_error + raw_record list)"
  let ?api3 = "\<lambda>q::query_params. (Inl RequestException :: fetch_error + raw_record list)"
  have a: "?p \<in> set (fst (fetch_data_for_year ?api1 ''ACME'' ''2021'' 10))"
    using partial_query_iff_exact_empty[of "''ACME''" "''2021''" 10 ?api1] by simp
  have b: "fetch_data_for_year ?api2 ''ACME'' ''2021'' 10 = ([?q], [?r])"
    using partial_query_iff_exact_empty[of "''ACME''" "''2021''" 10 ?api2] by simp
  have c: "fetch_data_for_year ?api3 ''ACME'' ''2021'' 10 = ([?q], [])"
    using partial_query_iff_exact_empty[of "''ACME''" "''2021''" 10 ?api3] by simp
  from a b c show ?thesis by blast
qed

subsection \<open>Dictionaries with a default\<close>

lemma map_of_upsert:
  "map_of (upsert k f dflt al) k' =
     (if k' = k then Some (f (case map_of al k of None \<Rightarrow> dflt | Some v \<Rightarrow> v)) else map_of al k')"
  by (induction k f dflt al rule: upsert.induct) auto

lemma keys_upsert: "fst ` set (upsert k f dflt al) = insert k (fst ` set al)"
  by (induction k f dflt al rule: upsert.induct) (auto split: if_splits)



subsection \<open>Organization search\<close>














subsection \<open>Errors of the state/year summary\<close>

lemma py_float_errors:
  "py_float float_of_str v = Inl e \<Longrightarrow> e = ValueError \<or> e = TypeError \<or> e = OverflowError"
  by (cases v) (auto simp: float_of_int_def split: if_splits option.splits)

lemma extract_cost_errors:
  assumes "extract_cost_from_record float_of_str record = Inl e"
  shows "e = OverflowError"
proof -
  let ?v = "case cost_value record of None \<Rightarrow> JStr ''0'' | Some v \<Rightarrow> v"
  from assms obtain e' where f: "py_float float_of_str ?v = Inl e'"
    and e: "e' \<noteq> ValueError" "e' \<noteq> TypeError" "e = e'"
    by (auto simp: extract_cost_from_record_def Let_def split: if_splits sum.splits py_error.splits)
  from py_float_errors[OF f] e show ?thesis by simp
qed

lemma summary_step_errors:
  "summary_step float_of_str record acc = Inl e \<Longrightarrow> e = OverflowError"
  by (auto simp: summary_step_def Let_def split: sum.splits dest: extract_cost_errors)

lemma aggregate_summary_errors:
  "aggregate_summary float_of_str data acc = Inl e \<Longrightarrow> e = OverflowError"
  by (induction data arbitrary: acc) (auto split: sum.splits dest: summary_step_errors)

lemma vendor_percentage_value:
  "vendor_percentage t f = Inr (if 0 < f then fmul (rnd53 (t / f)) 100 else 0)"
  by (simp add: vendor_percentage_def py_truediv_def)

lemma summary_vendor_rows_no_error:
  "\<exists>rows. summary_vendor_rows school_threshold sku_threshold acc iv = Inr rows"
  by (cases iv) (auto simp: summary_vendor_rows_def Let_def vendor_percentage_value)

lemma collect_all_values:
  "(\<And>r. r \<in> set rs \<Longrightarrow> \<exists>x. r = Inr x) \<Longrightarrow> \<exists>xs. collect rs = Inr xs"
proof (induction rs)
  case Nil
  show ?case by simp
next
  case (Cons r rs)
  from Cons.prems[of r] obtain x where "r = Inr x" by auto
  moreover from Cons.IH Cons.prems obtain xs where "collect rs = Inr xs" by auto
  ultimately show ?case by simp
qed

lemma collect_vendor_rows_no_error:
  "\<exists>blocks. collect (map (summary_vendor_rows school_threshold sku_threshold acc) ivs) = Inr blocks"
  by (rule collect_all_values) (auto simp: summary_vendor_rows_no_error)

lemma generate_summary_errors:
  assumes "generate_summary float_of_str data state year school_threshold sku_threshold = Inl e"
  shows "e = OverflowError"
proof -
  from assms have ne: "data \<noteq> []"
    by (auto simp: generate_summary_def)
  show ?thesis
  proof (cases "aggregate_summary float_of_str data empty_acc")
    case (Inl e')
    with assms ne have "e = e'" by (simp add: generate_summary_def)
    with aggregate_summary_errors[OF Inl] show ?thesis by simp
  next
    case (Inr acc)
    from collect_vendor_rows_no_error[of school_threshold sku_threshold acc
        "enumerate 1 (summary_sorted_vendors (vendor_totals acc))"]
    obtain blocks where
      "collect (map (summary_vendor_rows school_threshold sku_threshold acc)
         (enumerate 1 (summary_sorted_vendors (vendor_totals acc)))) = Inr blocks"
      by blast
    with assms ne Inr show ?thesis by (simp add: generate_summary_def)
  qed
qed

text \<open>
  Claim C10. A vendor's percentage is computed without error for every total and every
  total funding: it is the rounded quotient times 100 when the total funding is positive
  and 0 otherwise, so the division is never by zero; and the summary of any record list
  never ends in \<^verbatim>\<open>ZeroDivisionError\<close>.
\<close>

theorem percentage_never_divides_by_zero:
  "(\<exists>p. vendor_percentage vendor_total funding = Inr p)
   \<and> (0 < funding \<longrightarrow>
        py_truediv vendor_total funding = Inr (rnd53 (vendor_total / funding)) \<and>
        vendor_percentage vendor_total funding = Inr (fmul (rnd53 (vendor_total / funding)) 100))
   \<and> (\<not> 0 < funding \<longrightarrow> vendor_percentage vendor_total funding = Inr 0)
   \<and> generate_summary float_of_str data state year school_threshold sku_threshold
        \<noteq> Inl ZeroDivisionError"
proof -
  have "generate_summary float_of_str data state year school_threshold sku_threshold
        \<noteq> Inl ZeroDivisionError"
    using generate_summary_errors by fastforce
  then show ?thesis
    by (simp add: vendor_percentage_value py_truediv_def)
qed

text \<open>
  The theorem at a total funding of 0 and of 4, and on two records whose costs both
  coerce to 0.
\<close>

theorem percentage_never_divides_by_zero_witness:
  "vendor_percentage 5 0 = Inr 0
   \<and> vendor_percentage 1 4 = Inr 25
   \<and> generate_summary digits_float
        [line_record ''Hp'' ''ACME'' ''Aruba 6300'' ''n/a'',
         line_record ''Cisco'' ''Beta'' ''MR46'' ''''] ''ok'' ''2024'' 250000 100000
      \<noteq> Inl ZeroDivisionError"
proof -
  have v: "fmul (rnd53 (1 / 4)) 100 = 25" by code_simp
  have a: "vendor_percentage 5 0 = Inr 0"
    using percentage_never_divides_by_zero[of 5 0] by simp
  have b: "vendor_percentage 1 4 = Inr 25"
    using percentage_never_divides_by_zero[of 1 4] v by simp
  have c: "generate_summary digits_float
        [line_record ''Hp'' ''ACME'' ''Aruba 6300'' ''n/a'',
         line_record ''Cisco'' ''Beta'' ''MR46'' ''''] ''ok'' ''2024'' 250000 100000
      \<noteq> Inl ZeroDivisionError"
    using percentage_never_divides_by_zero by blast
  from a b c show ?thesis by blast
qed

subsection \<open>Labels of the item rows\<close>

lemma length_truncate_model: "length (truncate_model m) \<le> 45"
  by (simp add: truncate_model_def)

lemma take_42_truncate_model: "take 42 (truncate_model m) = take 42 m"
  by (simp add: truncate_model_def)

lemma length_item_label: "length (item_label it) \<le> 45"
proof -
  let ?m = "truncate_model (model it)"
  let ?app = "''(App '' @ app_number it @ '') ''"
  let ?space = "45 - int (length ?app) - 3"
  have m: "length ?m \<le> 45" by (rule length_truncate_model)
  have cut: "length (take 42 ?m @ ''...'') \<le> 45" by simp
  have pre: "length (?app @ take (nat ?space) ?m @ ''...'') \<le> 45" if "10 < ?space"
  proof -
    have "length (take (nat ?space) ?m) \<le> nat ?space" by simp
    moreover from that have "int (length ?app) + int (nat ?space) + 3 \<le> 45" by simp
    ultimately have "int (length ?app) + int (length (take (nat ?space) ?m)) + 3 \<le> 45"
      by linarith
    then show ?thesis by simp
  qed
  consider (paren) "CHR ''('' \<in> set (model it) \<and> CHR '')'' \<in> set (model it)"
    | (fits) "\<not> (CHR ''('' \<in> set (model it) \<and> CHR '')'' \<in> set (model it))"
        "\<not> 45 < length (?app @ ?m)"
    | (prefix) "\<not> (CHR ''('' \<in> set (model it) \<and> CHR '')'' \<in> set (model it))"
        "45 < length (?app @ ?m)" "10 < ?space"
    | (bare) "\<not> (CHR ''('' \<in> set (model it) \<and> CHR '')'' \<in> set (model it))"
        "45 < length (?app @ ?m)" "\<not> 10 < ?space"
    by blast
  then show ?thesis
  proof cases
    case paren
    then have "item_label it = ?m" by (simp add: item_label_def Let_def)
    with m show ?thesis by simp
  next
    case fits
    from fits(1) have np: "(CHR ''('' \<in> set (model it) \<and> CHR '')'' \<in> set (model it)) = False"
      by blast
    from fits have "item_label it = ?app @ ?m" by (simp add: item_label_def Let_def np)
    with fits(2) show ?thesis by simp
  next
    case prefix
    from prefix(1) have np: "(CHR ''('' \<in> set (model it) \<and> CHR '')'' \<in> set (model it)) = False"
      by blast
    from prefix have "item_label it = ?app @ take (nat ?space) ?m @ ''...''"
      by (simp add: item_label_def Let_def np)
    with pre[OF prefix(3)] show ?thesis by simp
  next
    case bare
    from bare(1) have np: "(CHR ''('' \<in> set (model it) \<and> CHR '')'' \<in> set (model it)) = False"
      by blast
    from bare have "item_label it = take 42 ?m @ ''...''"
      by (simp add: item_label_def Let_def np)
    with cut show ?thesis by simp
  qed
qed

lemma length_ljust: "length (ljust w s) = max w (length s)"
  by (simp add: ljust_def)

lemma length_rjust: "length (rjust w s) = max w (length s)"
  by (simp add: rjust_def)

text \<open>
  Claim C7. The label of an item row is at most 45 characters long in both reports, the
  ellipsis and the application-number prefix included, and the field printed for it (the
  label padded on the right) is exactly 45 characters wide; in the organization history,
  when the model lacks a parenthesis, the prefixed label would exceed 45 characters and the
  prefix leaves no more than 10 characters for the model, the label is the model cut to 42
  characters and an ellipsis, without the prefix.
\<close>

theorem label_at_most_45:
  "length (item_label it) \<le> 45
   \<and> length (truncate_model (sku_model s)) \<le> 45
   \<and> (\<forall>label q c. item_row it = ItemLine label q c \<longrightarrow> length label = 45)
   \<and> (\<forall>label q c. sku_row s = SkuLine label q c \<longrightarrow> length label = 45)
   \<and> (\<not> (CHR ''('' \<in> set (model it) \<and> CHR '')'' \<in> set (model it)) \<and>
       45 < length (''(App '' @ app_number it @ '') '' @ truncate_model (model it)) \<and>
       45 - int (length (''(App '' @ app_number it @ '') '')) - 3 \<le> 10
       \<longrightarrow> item_label it = take 42 (model it) @ ''...'')"
proof -
  have a: "length (item_label it) \<le> 45" by (rule length_item_label)
  have b: "length (truncate_model (sku_model s)) \<le> 45" by (rule length_truncate_model)
  have c: "\<forall>label q c. item_row it = ItemLine label q c \<longrightarrow> length label = 45"
    using a by (auto simp: item_row_def length_ljust)
  have d: "\<forall>label q c. sku_row s = SkuLine label q c \<longrightarrow> length label = 45"
    using b by (auto simp: sku_row_def length_ljust)
  have e: "\<not> (CHR ''('' \<in> set (model it) \<and> CHR '')'' \<in> set (model it)) \<and>
       45 < length (''(App '' @ app_number it @ '') '' @ truncate_model (model it)) \<and>
       45 - int (length (''(App '' @ app_number it @ '') '')) - 3 \<le> 10
       \<longrightarrow> item_label it = take 42 (model it) @ ''...''"
    unfolding item_label_def Let_def by (auto simp: take_42_truncate_model)
  from a b c d e show ?thesis by blast
qed

text \<open>
  The theorem on an item whose application number has 30 characters (the prefix leaves 5
  characters, so the bare model is cut) and on an item of the state/year summary with a
  model of 58 characters.
\<close>

theorem label_at_most_45_witness:
  "item_label \<lparr>model = ''Catalyst 9300 series switch with network advantage license'',
               product_name = ''Switch'', quantity = ''3'', item_cost = 130000,
               app_number = ''221001234000000000000000000000''\<rparr>
     = ''Catalyst 9300 series switch with network a...''
   \<and> length (ljust 45 (item_label \<lparr>model = ''C9200'', product_name = ''Switch'',
               quantity = ''3'', item_cost = 130000, app_number = ''221001234''\<rparr>)) = 45
   \<and> length (ljust 45 (truncate_model (sku_model \<lparr>sku_model =
               ''Catalyst 9300 series switch with network advantage license'',
               sku_quantity = ''3'', sku_cost = 130000, sku_product_name = ''Switch''\<rparr>))) = 45"
proof -
  let ?it = "\<lparr>model = ''Catalyst 9300 series switch with network advantage license'',
               product_name = ''Switch'', quantity = ''3'', item_cost = 130000,
               app_number = ''221001234000000000000000000000''\<rparr>"
  let ?it2 = "\<lparr>model = ''C9200'', product_name = ''Switch'',
               quantity = ''3'', item_cost = 130000, app_number = ''221001234''\<rparr>"
  let ?s = "\<lparr>sku_model = ''Catalyst 9300 series switch with network advantage license'',
               sku_quantity = ''3'', sku_cost = 130000, sku_product_name = ''Switch''\<rparr>"
  have h: "\<not> (CHR ''('' \<in> set (model ?it) \<and> CHR '')'' \<in> set (model ?it)) \<and>
       45 < length (''(App '' @ app_number ?it @ '') '' @ truncate_model (model ?it)) \<and>
       45 - int (length (''(App '' @ app_number ?it @ '') '')) - 3 \<le> 10"
    by code_simp
  have t: "take 42 (model ?it) @ ''...'' = ''Catalyst 9300 series switch with network a...''"
    by code_simp
  note th = label_at_most_45[of ?it ?s] label_at_most_45[of ?it2 ?s]
  from th(1) h have "item_label ?it = take 42 (model ?it) @ ''...''" by blast
  with t have a: "item_label ?it = ''Catalyst 9300 series switch with network a...''" by simp
  from th(2) have "length (item_label ?it2) \<le> 45" by blast
  then have b: "length (ljust 45 (item_label ?it2)) = 45" by (simp add: length_ljust)
  from th(1) have "length (truncate_model (sku_model ?s)) \<le> 45" by blast
  then have c: "length (ljust 45 (truncate_model (sku_model ?s))) = 45" by (simp add: length_ljust)
  from a b c show ?thesis by blast
qed

subsection \<open>Dictionaries filled by a loop\<close>




lemma map_of_fold_upsert:
  "map_of (fold (\<lambda>r. upsert (key r) (g r) dflt) rs al) k =
     (case map_of al k of
        None \<Rightarrow> (if filter (\<lambda>r. key r = k) rs = [] then None
                 else Some (fold g (filter (\<lambda>r. key r = k) rs) dflt))
      | Some v \<Rightarrow> Some (fold g (filter (\<lambda>r. key r = k) rs) v))"
proof (induction rs arbitrary: al)
  case Nil
  show ?case by (simp split: option.splits)
next
  case (Cons r rs)
  show ?case
    by (simp add: Cons.IH map_of_upsert split: option.splits)
qed

lemma map_of_fold_upsert_empty:
  "map_of (fold (\<lambda>r. upsert (key r) (g r) dflt) rs []) k =
     (if filter (\<lambda>r. key r = k) rs = [] then None
      else Some (fold g (filter (\<lambda>r. key r = k) rs) dflt))"
  by (simp add: map_of_fold_upsert)

subsection \<open>The grouping of the organization history\<close>

lemma group_by_vendor_fold:
  "group_by_vendor records =
     fold (\<lambda>r. upsert (standardized_vendor r)
                 (\<lambda>(total, items). (fadd total (cost r), items @ [item_of r])) (0, [])) records []"
proof -
  have "vendor_step = (\<lambda>r. upsert (standardized_vendor r)
                 (\<lambda>(total, items). (fadd total (cost r), items @ [item_of r])) (0, []))"
    by (rule ext)+ (simp add: vendor_step_def)
  then show ?thesis by (simp add: group_by_vendor_def)
qed


lemma fold_total_items:
  "fold (\<lambda>r (total, items). (fadd total (cost r), items @ [item_of r])) rs (t, its) =
     (foldl fadd t (map cost rs), its @ map item_of rs)"
  by (induction rs arbitrary: t its) simp_all

lemma group_by_vendor_lookup:
  "map_of (group_by_vendor records) v =
     (if filter (\<lambda>r. standardized_vendor r = v) records = [] then None
      else Some (py_sum (map cost (filter (\<lambda>r. standardized_vendor r = v) records)),
                 map item_of (filter (\<lambda>r. standardized_vendor r = v) records)))"
proof -
  have "fold (\<lambda>r. \<lambda>(total, items). (fadd total (cost r), items @ [item_of r])) rs (0, []) =
        (py_sum (map cost rs), map item_of rs)" for rs
    using fold_total_items[of rs 0 "[]"] by (simp add: py_sum_def)
  then show ?thesis
    unfolding group_by_vendor_fold by (simp add: map_of_fold_upsert_empty)
qed

subsection \<open>The loop of the summary\<close>







lemma fold_pure_vendor_counts:
  "vendor_counts (fold (summary_pure_step P) data acc) =
     fold (\<lambda>r. upsert (summary_vendor r) (\<lambda>n. n + 1) 0) data (vendor_counts acc)"
  by (induction data arbitrary: acc) (simp_all add: summary_pure_step_def accumulate_def)

lemma fold_pure_total_funding:
  "total_funding (fold (summary_pure_step P) data acc) =
     foldl fadd (total_funding acc) (map (cost_or_zero P) data)"
  by (induction data arbitrary: acc) (simp_all add: summary_pure_step_def accumulate_def)


lemma fold_pure_school_items:
  "school_vendor_items (fold (summary_pure_step P) data acc) =
     fold (\<lambda>r. upsert (summary_vendor r)
                 (\<lambda>schools. upsert (summary_school r) (\<lambda>items. items @ [summary_item P r]) [] schools) [])
       data (school_vendor_items acc)"
  by (induction data arbitrary: acc) (simp_all add: summary_pure_step_def accumulate_def)


subsection \<open>The vendor lines of a year\<close>





subsection \<open>The order of the vendors\<close>











subsection \<open>Rows beneath a vendor and an organization\<close>












end
